theory Spec2Isabelle
  imports Main "HOL-Library.Word"
begin

section \<open>Basic types of the DPoR engine\<close>

text \<open>
  \<open>common.Address\<close> is a 20-byte array, \<open>common.Hash\<close> a 32-byte array; both are read
  here as the big-endian number of their bytes.  Go's \<open>uint64\<close> and \<open>uint\<close> are 64-bit
  words (a 64-bit platform), Go's \<open>int\<close> is the signed reading of such a word.
\<close>

type_synonym address = "160 word"
type_synonym hash = "256 word"
type_synonym byte = "8 word"
type_synonym uint64 = "64 word"

text \<open>
  A Go call either returns or panics (slice bounds, division by zero, a failed type
  assertion).  Errors that are returned are ordinary values of type \<open>error\<close>.
\<close>

datatype 'a go = Return 'a | Panic

datatype error =
    errUnknownBlock
  | errFakerFail
  | errMissingSignature
  | errInvalidSigBytes
  | errNoSigsInCache
  | errInvalidDifficulty
  | errInvalidVotingChain
  | errSignerNotInCommittee
  | errGenesisBlockNumber
  | errMultiBlocksInOneHeight
  | ErrUnknownAncestor
  | ErrUnauthorized
  | ErrNotEnoughSigs
  | errExternal nat  \<comment> \<open>an error handed up by a collaborator (crypto, decoding, snapshot resolution, the signing function)\<close>

text \<open>
  The header of \<open>types.Header\<close>, with the fields \<open>HeaderOld.ToNewType\<close> fills.
  \<open>Number\<close> holds \<open>header.Number.Uint64()\<close>, the only way the engine reads the field
  (a header has a non-nil number once \<open>verifyHeader\<close> let it through);
  \<open>Difficulty\<close> is a \<open>*big.Int\<close> that may be nil.
\<close>

record Header =
  ParentHash :: hash
  Coinbase :: address
  StateRoot :: hash
  TxsRoot :: hash
  ReceiptsRoot :: hash
  LogsBloom :: "2048 word"
  Difficulty :: "int option"
  Number :: uint64
  GasLimit :: uint64
  GasUsed :: uint64
  Time :: int
  Extra :: "byte list"
  Extra2 :: "byte list"
  MixHash :: hash
  Nonce :: uint64

text \<open>\<open>rpt.RPT\<close>: a candidate and its reputation (the scores written in the code are whole numbers).\<close>

record RPT =
  Address :: address
  Rpt :: int

text \<open>The values \<open>sigHash\<close> hands to \<open>rlp.Encode\<close>, in the order it lists them.\<close>

datatype rlp_field =
    FHash hash
  | FAddress address
  | FBloom "2048 word"
  | FBig "int option"
  | FBigNumber uint64
  | FBigTime int
  | FUint64 uint64
  | FBytes "byte list"
  | FNonce uint64

section \<open>The committee snapshot\<close>

definition checkpointInterval :: uint64 where
  "checkpointInterval = 4"

record DporConfig =
  Epoch :: uint64

text \<open>
  \<open>DporSnapshot\<close>.  The fields \<open>Number\<close> and \<open>Hash\<close> of the Go struct are \<open>snapNumber\<close>
  and \<open>snapHash\<close> here (a header has a \<open>Number\<close> too).  The pointer to the signature
  cache is not read by the operations below and is left out.
\<close>

record DporSnapshot =
  config :: DporConfig
  snapNumber :: uint64
  snapHash :: hash
  Signers :: "address list"
  Candidates :: "address list"
  Recents :: "uint64 \<rightharpoonup> address"

text \<open>The signature cache: for a header hash, the signatures recovered so far, by signer.
  The code keeps it in an ARC cache of 1000 entries; eviction is not modelled.
  \<open>ecrecover\<close> and \<open>acceptSigs\<close> read an entry as a Go map, \<open>signHeader\<close> through
  \<open>GetSig\<close>; it is one map from signers to signatures here.\<close>

type_synonym sigcache = "hash \<rightharpoonup> (address \<rightharpoonup> byte list)"

datatype Mode = NormalMode | FakeMode | DoNothingFakeMode

text \<open>
  The engine \<open>Dpor\<close>, with the fields the operations below read: its configuration
  (\<open>config\<close> in Go, \<open>dporConfig\<close> here), the signature cache, the map of signed blocks,
  the signing identity and function, and the fake-mode switches.
\<close>

record Dpor =
  dporConfig :: DporConfig
  signatures :: sigcache
  signedBlocks :: "uint64 \<rightharpoonup> hash"
  signer :: address
  signFn :: "address \<Rightarrow> hash \<Rightarrow> error + byte list"
  fake :: Mode
  fakeFail :: uint64

text \<open>
  The collaborators of the engine, which live in other packages and files and are taken
  as parameters:
  \<^item> \<open>hashOf\<close>: \<open>header.Hash()\<close>;
  \<^item> \<open>rlpHash\<close>: Keccak-256 of the RLP encoding of a list of values;
  \<^item> \<open>Elect\<close>: \<open>election.Elect(rpts, seed, viewLength)\<close>;
  \<^item> \<open>Ecrecover\<close>: \<open>crypto.Ecrecover(hash, sig)\<close>, a public key or an error;
  \<^item> \<open>Keccak256\<close>: \<open>crypto.Keccak256\<close> of a byte string;
  \<^item> \<open>DecodedExtra2\<close>: the signature bytes decoded from \<open>header.Extra2\<close>, or an error;
  \<^item> \<open>EncodeToExtra2\<close>: the bytes \<open>header.EncodeToExtra2\<close> stores in \<open>Extra2\<close>, or an error;
  \<^item> \<open>diffInTurn\<close>, \<open>diffNoTurn\<close>: the two difficulty constants;
  \<^item> \<open>snapshotOf\<close>: \<open>dh.snapshot(dpor, chain, number, hash, parents)\<close>, which walks the
    chain and the snapshot stores and leaves the signature cache alone;
  \<^item> \<open>IsLeaderOf\<close>, \<open>SignersOf\<close>, \<open>IsSignerOf\<close>, \<open>SignerRoundOf\<close>: the snapshot's
    per-height queries that \<open>verifySeal\<close> and \<open>signHeader\<close> call.
\<close>

record externals =
  hashOf :: "Header \<Rightarrow> hash"
  rlpHash :: "rlp_field list \<Rightarrow> hash"
  Elect :: "RPT list \<Rightarrow> int \<Rightarrow> int \<Rightarrow> address list"
  Ecrecover :: "hash \<Rightarrow> byte list \<Rightarrow> error + byte list"
  Keccak256 :: "byte list \<Rightarrow> hash"
  DecodedExtra2 :: "byte list \<Rightarrow> error + byte list"
  EncodeToExtra2 :: "byte list \<Rightarrow> error + byte list"
  diffInTurn :: int
  diffNoTurn :: int
  snapshotOf :: "Dpor \<Rightarrow> uint64 \<Rightarrow> hash \<Rightarrow> Header list \<Rightarrow> error + DporSnapshot"
  IsLeaderOf :: "DporSnapshot \<Rightarrow> address \<Rightarrow> uint64 \<Rightarrow> bool \<times> error option"
  SignersOf :: "DporSnapshot \<Rightarrow> uint64 \<Rightarrow> address list"
  IsSignerOf :: "DporSnapshot \<Rightarrow> address \<Rightarrow> uint64 \<Rightarrow> bool"
  SignerRoundOf :: "DporSnapshot \<Rightarrow> address \<Rightarrow> uint64 \<Rightarrow> int \<times> error option"

text \<open>Go's builtin \<open>copy(dst, src)\<close>: the first \<open>min(len(dst), len(src))\<close> elements are overwritten.\<close>

definition copy_slice :: "'a list \<Rightarrow> 'a list \<Rightarrow> 'a list" where
  "copy_slice dst src = take (length dst) src @ drop (length src) dst"

text \<open>\<open>DporSnapshot.copy\<close>: the signers are copied into a fresh slice of \<open>config.Epoch\<close> zero
  addresses (the limit on what \<open>make\<close> can allocate is not modelled).\<close>

definition copy_snap :: "DporSnapshot \<Rightarrow> DporSnapshot" where
  "copy_snap s =
     \<lparr> config = config s,
       snapNumber = snapNumber s,
       snapHash = snapHash s,
       Signers = copy_slice (replicate (unat (Epoch (config s))) 0) (Signers s),
       Candidates = copy_slice (replicate (length (Candidates s)) 0) (Candidates s),
       Recents = Map.empty ++ Recents s \<rparr>"

definition updateCandidates :: "DporSnapshot \<Rightarrow> Header \<Rightarrow> error option \<times> DporSnapshot" where
  "updateCandidates s header =
     (None, s\<lparr>Candidates :=
        [0xe94b7b6c5a0e526a4d97f9768ad6097bde25c62a,
         0xc05302acebd0730e3a18a058d7d1cb1204c4a092,
         0xef3dd127de235f15ffb4fc0d71469d1339df6465]\<rparr>)"

definition updateRpts :: "DporSnapshot \<Rightarrow> Header \<Rightarrow> RPT list \<times> error option" where
  "updateRpts s header =
     ([\<lparr>Address = 0xe94b7b6c5a0e526a4d97f9768ad6097bde25c62a, Rpt = 50\<rparr>,
       \<lparr>Address = 0xc05302acebd0730e3a18a058d7d1cb1204c4a092, Rpt = 100\<rparr>,
       \<lparr>Address = 0xef3dd127de235f15ffb4fc0d71469d1339df6465, Rpt = 20\<rparr>], None)"

definition updateView ::
  "externals \<Rightarrow> DporSnapshot \<Rightarrow> RPT list \<Rightarrow> int \<Rightarrow> int \<Rightarrow> error option \<times> DporSnapshot" where
  "updateView X s rpts seed viewLength = (None, s\<lparr>Signers := Elect X rpts seed viewLength\<rparr>)"

text \<open>
  \<open>applyHeader\<close> changes the snapshot in place and returns an error; the model returns
  both.  \<open>header.Hash().Big().Int64()\<close> is the low 64 bits of the hash, read signed;
  \<open>int(s.config.Epoch)\<close> is the signed reading of the epoch length.
\<close>

definition applyHeader :: "externals \<Rightarrow> DporSnapshot \<Rightarrow> Header \<Rightarrow> error option \<times> DporSnapshot" where
  "applyHeader X s header =
     (let s1 = s\<lparr>snapNumber := Number header, snapHash := hashOf X header\<rparr>;
          s2 = snd (updateCandidates s1 header)
      in if snapNumber s2 mod checkpointInterval = 0 then
           (case updateRpts s2 header of
              (rpts, Some err) \<Rightarrow> (Some err, s2)
            | (rpts, None) \<Rightarrow>
                (let seed = sint (ucast (hashOf X header) :: uint64);
                     viewLength = sint (Epoch (config s2))
                 in (None, snd (updateView X s2 rpts seed viewLength))))
         else (None, s2))"

text \<open>The sanity loop of \<open>apply\<close>: every header's number is its predecessor's plus one (in \<open>uint64\<close>).\<close>

fun sanityCheck :: "Header list \<Rightarrow> bool" where
  "sanityCheck (a # b # rest) = (if Number b \<noteq> Number a + 1 then False else sanityCheck (b # rest))"
| "sanityCheck [a] = True"
| "sanityCheck [] = True"

text \<open>The loop of \<open>apply\<close> over the headers; it stops at the first error.\<close>

fun applyHeaders :: "externals \<Rightarrow> DporSnapshot \<Rightarrow> Header list \<Rightarrow> error option \<times> DporSnapshot" where
  "applyHeaders X snap [] = (None, snap)"
| "applyHeaders X snap (header # rest) =
     (case applyHeader X snap header of
        (Some err, snap') \<Rightarrow> (Some err, snap')
      | (None, snap') \<Rightarrow> applyHeaders X snap' rest)"

text \<open>\<open>DporSnapshot.apply\<close>.  With no headers the receiver itself is returned.\<close>

definition apply_snap :: "externals \<Rightarrow> DporSnapshot \<Rightarrow> Header list \<Rightarrow> error + DporSnapshot" where
  "apply_snap X s headers =
     (if length headers = 0 then Inr s
      else if \<not> sanityCheck headers then Inl errInvalidVotingChain
      else if Number (headers ! 0) \<noteq> snapNumber s + 1 then Inl errInvalidVotingChain
      else (case applyHeaders X (copy_snap s) headers of
              (Some err, snap) \<Rightarrow> Inl err
            | (None, snap) \<Rightarrow>
                Inr (snap\<lparr>snapNumber := Number (headers ! (length headers - 1)),
                          snapHash := hashOf X (headers ! (length headers - 1))\<rparr>)))"

definition signers :: "DporSnapshot \<Rightarrow> address list" where
  "signers s = Signers s"

text \<open>The loop of \<open>signerRound\<close>: the first round at which the signer is found, or \<open>-1\<close> and an error.\<close>

fun signerRoundLoop :: "int \<Rightarrow> address list \<Rightarrow> address \<Rightarrow> int \<times> error option" where
  "signerRoundLoop round [] addr = (- 1, Some errSignerNotInCommittee)"
| "signerRoundLoop round (s # rest) addr =
     (if s = addr then (round, None) else signerRoundLoop (round + 1) rest addr)"

definition signerRound :: "DporSnapshot \<Rightarrow> address \<Rightarrow> int \<times> error option" where
  "signerRound s addr = signerRoundLoop 0 (signers s) addr"

definition isSigner :: "DporSnapshot \<Rightarrow> address \<Rightarrow> bool" where
  "isSigner s addr = (snd (signerRound s addr) = None)"

text \<open>\<open>isLeader\<close>.  The remainder by \<open>config.Epoch\<close> panics when the epoch length is zero.\<close>

definition isLeader :: "DporSnapshot \<Rightarrow> address \<Rightarrow> uint64 \<Rightarrow> (bool \<times> error option) go" where
  "isLeader s addr number =
     (if number = 0 then Return (False, Some errGenesisBlockNumber)
      else (case signerRound s addr of
              (round, Some err) \<Rightarrow> Return (False, Some err)
            | (round, None) \<Rightarrow>
                if Epoch (config s) = 0 then Panic
                else Return (round = sint ((number - 1) mod Epoch (config s)), None)))"

definition inturn :: "DporSnapshot \<Rightarrow> uint64 \<Rightarrow> address \<Rightarrow> bool go" where
  "inturn s number addr =
     (case isLeader s addr number of
        Panic \<Rightarrow> Panic
      | Return (ok, Some err) \<Rightarrow> Return False
      | Return (ok, None) \<Rightarrow> Return ok)"

section \<open>Signature hashing, recovery and the quorum\<close>

text \<open>Modelled from the spec: the constant \<open>extraSeal\<close> is declared in another file of the
  package; the spec fixes a signature, and so the leader seal at the end of \<open>Extra\<close>, at
  65 bytes.\<close>

definition extraSeal :: nat where
  "extraSeal = 65"



text \<open>\<open>sigHash\<close>.  The slice \<open>header.Extra[:len(header.Extra)-65]\<close> panics on a shorter \<open>Extra\<close>.\<close>

definition sigHash :: "externals \<Rightarrow> Header \<Rightarrow> hash go" where
  "sigHash X header =
     (if length (Extra header) < 65 then Panic
      else Return (rlpHash X
        [FHash (ParentHash header),
         FAddress (Coinbase header),
         FHash (StateRoot header),
         FHash (TxsRoot header),
         FHash (ReceiptsRoot header),
         FBloom (LogsBloom header),
         FBig (Difficulty header),
         FBigNumber (Number header),
         FUint64 (GasLimit header),
         FUint64 (GasUsed header),
         FBigTime (Time header),
         FBytes (take (length (Extra header) - 65) (Extra header)),
         FHash (MixHash header),
         FNonce (Nonce header)]))"

text \<open>\<open>copy(addr[:], crypto.Keccak256(pubkey[1:])[12:])\<close>: the last 20 bytes of the digest.
  The slice \<open>pubkey[1:]\<close> panics on an empty key.\<close>

definition pubkeyToAddress :: "externals \<Rightarrow> byte list \<Rightarrow> address go" where
  "pubkeyToAddress X pubkey =
     (if length pubkey < 1 then Panic else Return (ucast (Keccak256 X (drop 1 pubkey))))"

text \<open>The slots \<open>signersSig[i*extraSeal : (i+1)*extraSeal]\<close> for \<open>i < len(signersSig)/extraSeal\<close>.\<close>

definition sigSlots :: "byte list \<Rightarrow> byte list list" where
  "sigSlots signersSig =
     map (\<lambda>i. take extraSeal (drop (i * extraSeal) signersSig)) [0 ..< length signersSig div extraSeal]"

text \<open>
  The loop of \<open>ecrecover\<close> over the slots.  A slot of zero bytes is skipped.  The cache
  entry of the header is fetched with its presence ignored and then asserted to be a map,
  which panics when the entry is absent.
\<close>

fun recoverLoop ::
  "externals \<Rightarrow> Header \<Rightarrow> hash \<Rightarrow> address \<Rightarrow> byte list list \<Rightarrow> address list \<Rightarrow> sigcache
     \<Rightarrow> ((address \<times> address list \<times> error option) \<times> sigcache) go" where
  "recoverLoop X header h leader [] recovered cache = Return ((leader, recovered, None), cache)"
| "recoverLoop X header h leader (signerSig # rest) recovered cache =
     (if signerSig = replicate extraSeal 0 then recoverLoop X header h leader rest recovered cache
      else (case sigHash X header of
              Panic \<Rightarrow> Panic
            | Return digest \<Rightarrow>
               (case Ecrecover X digest signerSig of
                  Inl err \<Rightarrow> Return ((0, recovered, Some err), cache)
                | Inr signerPubkey \<Rightarrow>
                   (case pubkeyToAddress X signerPubkey of
                      Panic \<Rightarrow> Panic
                    | Return sg \<Rightarrow>
                       (case cache h of
                          None \<Rightarrow> Panic
                        | Some sigs \<Rightarrow>
                            recoverLoop X header h leader rest (recovered @ [sg])
                              (cache(h \<mapsto> sigs(sg \<mapsto> signerSig))))))))"

text \<open>\<open>ecrecover\<close>: the leader, the recovered signers and an error, with the cache as it is left.\<close>

definition ecrecover ::
  "externals \<Rightarrow> Header \<Rightarrow> sigcache \<Rightarrow> ((address \<times> address list \<times> error option) \<times> sigcache) go" where
  "ecrecover X header cache =
     (let h = hashOf X header in
      if length (Extra header) < extraSeal then Return ((0, [], Some errMissingSignature), cache)
      else
       (let leaderSig = drop (length (Extra header) - extraSeal) (Extra header) in
        case DecodedExtra2 X (Extra2 header) of
          Inl err \<Rightarrow> Return ((0, [], Some err), cache)
        | Inr signersSig \<Rightarrow>
           (case sigHash X header of
              Panic \<Rightarrow> Panic
            | Return digest \<Rightarrow>
               (case Ecrecover X digest leaderSig of
                  Inl err \<Rightarrow> Return ((0, [], Some err), cache)
                | Inr leaderPubkey \<Rightarrow>
                   (case pubkeyToAddress X leaderPubkey of
                      Panic \<Rightarrow> Panic
                    | Return leader \<Rightarrow>
                       (let cache1 =
                              (case cache h of
                                 Some sigs \<Rightarrow> cache(h \<mapsto> sigs(leader \<mapsto> leaderSig))
                               | None \<Rightarrow> cache(h \<mapsto> [leader \<mapsto> leaderSig]))
                        in if length signersSig mod extraSeal \<noteq> 0
                           then Return ((leader, [], Some errInvalidSigBytes), cache1)
                           else recoverLoop X header h leader (sigSlots signersSig) [] cache1))))))"




section \<open>Seal verification and signing\<close>





text \<open>\<open>copy(allSigs[lo:hi], src)\<close>; the slice expression panics outside \<open>0 \<le> lo \<le> hi \<le> len(allSigs)\<close>.\<close>

definition copy_at :: "byte list \<Rightarrow> int \<Rightarrow> int \<Rightarrow> byte list \<Rightarrow> byte list go" where
  "copy_at allSigs lo hi src =
     (if lo < 0 \<or> hi < lo \<or> int (length allSigs) < hi then Panic
      else Return (take (nat lo) allSigs
                   @ copy_slice (take (nat hi - nat lo) (drop (nat lo) allSigs)) src
                   @ drop (nat hi) allSigs))"

text \<open>
  The first loop of \<open>signHeader\<close>: the cached signature of each committee member goes to
  the member's slot.  The cache entry is asserted to be a signature set in every round,
  which panics when the header has no entry.
\<close>

fun copySigsLoop ::
  "(address \<rightharpoonup> byte list) option \<Rightarrow> int \<Rightarrow> address list \<Rightarrow> byte list \<Rightarrow> byte list go" where
  "copySigsLoop s round [] allSigs = Return allSigs"
| "copySigsLoop s round (sg # rest) allSigs =
     (case s of
        None \<Rightarrow> Panic
      | Some sigs \<Rightarrow>
         (case sigs sg of
            None \<Rightarrow> copySigsLoop s (round + 1) rest allSigs
          | Some sig \<Rightarrow>
             (case copy_at allSigs (round * int extraSeal) ((round + 1) * int extraSeal) sig of
                Panic \<Rightarrow> Panic
              | Return allSigs' \<Rightarrow> copySigsLoop s (round + 1) rest allSigs')))"

text \<open>The tail of \<open>signHeader\<close> after the check of the signed blocks: sign the digest, put
  the signature into the signer's slot, encode the slots into \<open>Extra2\<close>.\<close>

definition signAndStore ::
  "externals \<Rightarrow> Dpor \<Rightarrow> DporSnapshot \<Rightarrow> Header \<Rightarrow> byte list \<Rightarrow> (error option \<times> Header \<times> Dpor) go" where
  "signAndStore X dpor snap header1 allSigs =
     (case sigHash X header1 of
        Panic \<Rightarrow> Panic
      | Return digest \<Rightarrow>
         (case signFn dpor (signer dpor) digest of
            Inl err \<Rightarrow> Return (Some err, header1, dpor)
          | Inr sighash \<Rightarrow>
             (let round = fst (SignerRoundOf X snap (signer dpor) (Number header1)) in
              case copy_at allSigs (round * int extraSeal) ((round + 1) * int extraSeal) sighash of
                Panic \<Rightarrow> Panic
              | Return allSigs' \<Rightarrow>
                 (case EncodeToExtra2 X allSigs' of
                    Inl err \<Rightarrow> Return (Some err, header1, dpor)
                  | Inr e2 \<Rightarrow> Return (None, header1\<lparr>Extra2 := e2\<rparr>, dpor)))))"

text \<open>
  \<open>signHeader\<close>: the error, the header as it is left and the engine.  No field of the
  engine is assigned in the function, so the engine comes back as it went in.
  \<open>make([]byte, int(Epoch)*extraSeal)\<close> panics on a negative length.
\<close>

definition signHeader ::
  "externals \<Rightarrow> Dpor \<Rightarrow> Header \<Rightarrow> (error option \<times> Header \<times> Dpor) go" where
  "signHeader X dpor header =
     (let h = hashOf X header;
          number = Number header
      in case snapshotOf X dpor (number - 1) (ParentHash header) [] of
           Inl err \<Rightarrow> Return (Some err, header, dpor)
         | Inr snap \<Rightarrow>
            (let s = signatures dpor h;
                 n = sint (Epoch (dporConfig dpor) * word_of_nat extraSeal)
             in if n < 0 then Panic
                else
                 (case copySigsLoop s 0 (SignersOf X snap number) (replicate (nat n) 0) of
                    Panic \<Rightarrow> Panic
                  | Return allSigs \<Rightarrow>
                     (case EncodeToExtra2 X allSigs of
                        Inl err \<Rightarrow> Return (Some err, header, dpor)
                      | Inr e2 \<Rightarrow>
                         (let header1 = header\<lparr>Extra2 := e2\<rparr> in
                          if IsSignerOf X snap (signer dpor) number then
                            (case signedBlocks dpor (Number header1) of
                               Some signedHash \<Rightarrow>
                                 if signedHash \<noteq> hashOf X header1
                                 then Return (Some errMultiBlocksInOneHeight, header1, dpor)
                                 else signAndStore X dpor snap header1 allSigs
                             | None \<Rightarrow> signAndStore X dpor snap header1 allSigs)
                          else Return (Some errSignerNotInCommittee, header1, dpor))))))"

text \<open>The scenario of two calls of the signer one after the other, on the engine the first
  call leaves: the two errors, and what the map of signed blocks holds for the second
  header's number afterwards.\<close>

definition signTwice ::
  "externals \<Rightarrow> Dpor \<Rightarrow> Header \<Rightarrow> Header \<Rightarrow> (error option \<times> error option \<times> hash option) go" where
  "signTwice X dpor h1 h2 =
     (case signHeader X dpor h1 of
        Panic \<Rightarrow> Panic
      | Return (e1, h1', dpor1) \<Rightarrow>
         (case signHeader X dpor1 h2 of
            Panic \<Rightarrow> Panic
          | Return (e2, h2', dpor2) \<Rightarrow> Return (e1, e2, signedBlocks dpor2 (Number h2))))"

section \<open>The protocol handler\<close>

text \<open>A block: its header and its body, the latter opaque here.\<close>

record Block =
  blockHeader :: Header
  blockBody :: "byte list"

text \<open>\<open>BlockOrHeader\<close>: the carrier of a consensus message, a block or a header (or neither).\<close>

record BlockOrHeader =
  block :: "Block option"
  header :: "Header option"




datatype Action =
    NoAction
  | BroadcastMsgAction
  | BroadcastAndInsertBlockAction
  | OtherAction nat














section \<open>Concrete instances\<close>

text \<open>A small committee, headers and stand-ins for the collaborators, on which the
  operations can be run.  The stand-in for signature recovery reads the signer's address
  off the first byte of a 65-byte signature.\<close>

definition demoHash :: "Header \<Rightarrow> hash" where
  "demoHash h = StateRoot h"

definition demoElect :: "RPT list \<Rightarrow> int \<Rightarrow> int \<Rightarrow> address list" where
  "demoElect rpts seed viewLength =
     (if rpts = [] then replicate (nat viewLength) 0
      else map (\<lambda>i. Address (rpts ! (i mod length rpts))) [0 ..< nat viewLength])"

definition demoRlpHash :: "rlp_field list \<Rightarrow> hash" where
  "demoRlpHash fs = (case fs of FHash parent # rest \<Rightarrow> parent + 1 | _ \<Rightarrow> 0)"

definition demoEcrecover :: "hash \<Rightarrow> byte list \<Rightarrow> error + byte list" where
  "demoEcrecover digest sig = (if length sig = 65 then Inr (4 # take 64 sig) else Inl (errExternal 1))"

definition demoKeccak256 :: "byte list \<Rightarrow> hash" where
  "demoKeccak256 bs = (case bs of [] \<Rightarrow> 0 | b # rest \<Rightarrow> ucast b)"

definition demoSnap :: DporSnapshot where
  "demoSnap =
     \<lparr> config = \<lparr>Epoch = 4\<rparr>, snapNumber = 6, snapHash = 0,
       Signers = [1, 2, 3, 4], Candidates = [], Recents = Map.empty \<rparr>"


definition demoIsLeaderOf :: "DporSnapshot \<Rightarrow> address \<Rightarrow> uint64 \<Rightarrow> bool \<times> error option" where
  "demoIsLeaderOf s a n = (case isLeader s a n of Return r \<Rightarrow> r | Panic \<Rightarrow> (False, Some (errExternal 0)))"

definition demoX :: externals where
  "demoX =
     \<lparr> hashOf = demoHash, rlpHash = demoRlpHash, Elect = demoElect,
       Ecrecover = demoEcrecover, Keccak256 = demoKeccak256,
       DecodedExtra2 = Inr, EncodeToExtra2 = Inr,
       diffInTurn = 2, diffNoTurn = 1,
       snapshotOf = (\<lambda>d n h ps. Inr demoSnap),
       IsLeaderOf = demoIsLeaderOf,
       SignersOf = (\<lambda>s n. signers s),
       IsSignerOf = (\<lambda>s a n. isSigner s a),
       SignerRoundOf = (\<lambda>s a n. signerRound s a) \<rparr>"

definition demoHeader :: "uint64 \<Rightarrow> hash \<Rightarrow> hash \<Rightarrow> byte list \<Rightarrow> byte list \<Rightarrow> int \<Rightarrow> Header" where
  "demoHeader n root parent extra extra2 d =
     \<lparr> ParentHash = parent, Coinbase = 0, StateRoot = root, TxsRoot = 0, ReceiptsRoot = 0,
       LogsBloom = 0, Difficulty = Some d, Number = n, GasLimit = 0, GasUsed = 0, Time = 0,
       Extra = extra, Extra2 = extra2, MixHash = 0, Nonce = 0 \<rparr>"

definition demoSig :: "byte \<Rightarrow> byte list" where
  "demoSig a = a # replicate 64 0"

definition demoSignFn :: "address \<Rightarrow> hash \<Rightarrow> error + byte list" where
  "demoSignFn a digest = Inr (demoSig (ucast a))"





text \<open>The signer's engine: member 2, with (empty) cache entries for the two headers it is
  about to sign, and nothing signed so far.\<close>

definition demoSigner :: Dpor where
  "demoSigner =
     \<lparr> dporConfig = \<lparr>Epoch = 4\<rparr>, signatures = [70 \<mapsto> Map.empty, 71 \<mapsto> Map.empty],
       signedBlocks = Map.empty,
       signer = 2, signFn = demoSignFn, fake = NormalMode, fakeFail = 0 \<rparr>"

definition demoBlockA :: Header where
  "demoBlockA = demoHeader 7 70 0 (replicate 32 0 @ demoSig 3) [] 2"

definition demoBlockB :: Header where
  "demoBlockB = demoHeader 7 71 0 (replicate 32 0 @ demoSig 3) [] 2"





section \<open>Applying headers to a snapshot\<close>

lemma applyHeader_no_error: "fst (applyHeader X s h) = None"
  by (simp add: applyHeader_def Let_def updateRpts_def)

lemma applyHeaders_no_error: "fst (applyHeaders X s hs) = None"
proof (induction hs arbitrary: s)
  case Nil
  show ?case by simp
next
  case (Cons h hs)
  obtain e s' where step: "applyHeader X s h = (e, s')" by (cases "applyHeader X s h")
  with applyHeader_no_error [of X s h] have "e = None" by simp
  with step Cons.IH [of s'] show ?case by simp
qed

lemma applyHeaders_run: "applyHeaders X s hs = (None, snd (applyHeaders X s hs))"
  using applyHeaders_no_error [of X s hs] by (cases "applyHeaders X s hs") simp

text \<open>
  C10.  Applying the empty header sequence succeeds and returns the snapshot it was
  given, every field as it was.
\<close>

theorem apply_empty_identity: "apply_snap X s [] = Inr s"
  by (simp add: apply_snap_def)

lemma sanityCheck_iff:
  "sanityCheck hs \<longleftrightarrow> (\<forall>i. Suc i < length hs \<longrightarrow> Number (hs ! Suc i) = Number (hs ! i) + 1)"
proof (induction hs rule: sanityCheck.induct)
  case (1 a b rest)
  show ?case
  proof (cases "Number b = Number a + 1")
    case True
    have "(\<forall>i. Suc i < length (a # b # rest) \<longrightarrow> Number ((a # b # rest) ! Suc i) = Number ((a # b # rest) ! i) + 1)
          \<longleftrightarrow> (\<forall>i. Suc i < length (b # rest) \<longrightarrow> Number ((b # rest) ! Suc i) = Number ((b # rest) ! i) + 1)"
      (is "?L \<longleftrightarrow> ?R")
    proof
      assume l: ?L
      show ?R
      proof (intro allI impI)
        fix i assume "Suc i < length (b # rest)"
        with l [rule_format, of "Suc i"] show "Number ((b # rest) ! Suc i) = Number ((b # rest) ! i) + 1"
          by simp
      qed
    next
      assume r: ?R
      show ?L
      proof (intro allI impI)
        fix i assume i: "Suc i < length (a # b # rest)"
        show "Number ((a # b # rest) ! Suc i) = Number ((a # b # rest) ! i) + 1"
        proof (cases i)
          case 0
          with True show ?thesis by simp
        next
          case (Suc j)
          with i r [rule_format, of j] show ?thesis by simp
        qed
      qed
    qed
    with True 1 show ?thesis by simp
  next
    case False
    then have "\<not> (\<forall>i. Suc i < length (a # b # rest) \<longrightarrow> Number ((a # b # rest) ! Suc i) = Number ((a # b # rest) ! i) + 1)"
      by (auto intro: exI [of _ 0])
    with False show ?thesis by simp
  qed
next
  case (2 a)
  show ?case by simp
next
  case 3
  show ?case by simp
qed

text \<open>
  C3 (as amended).  For a non-empty header sequence, \<open>apply\<close> returns an error exactly
  when the numbers do not follow: some header's number is not its predecessor's plus one, or
  the first header's number is not the snapshot's plus one (both in 64-bit arithmetic).  The
  error is then \<open>errInvalidVotingChain\<close>.  Parent hashes are not looked at.
\<close>

theorem apply_error_iff_numbers_break:
  assumes "hs \<noteq> []"
  shows "(isl (apply_snap X s hs) \<longleftrightarrow>
            \<not> ((\<forall>i. Suc i < length hs \<longrightarrow> Number (hs ! Suc i) = Number (hs ! i) + 1)
               \<and> Number (hs ! 0) = snapNumber s + 1))
         \<and> (isl (apply_snap X s hs) \<longrightarrow> apply_snap X s hs = Inl errInvalidVotingChain)"
proof -
  obtain r where r: "applyHeaders X (copy_snap s) hs = (None, r)"
    using applyHeaders_run by blast
  show ?thesis
    using assms r by (simp add: apply_snap_def sanityCheck_iff [symmetric])
qed

text \<open>C3, an instance: headers 7 and 8 on a snapshot at 6 are accepted, headers 7 and 9 are not.\<close>

theorem apply_error_iff_numbers_break_witness:
  "[demoHeader 7 70 0 [] [] 1, demoHeader 8 80 70 [] [] 1] \<noteq> []
   \<and> \<not> isl (apply_snap demoX demoSnap [demoHeader 7 70 0 [] [] 1, demoHeader 8 80 70 [] [] 1])
   \<and> apply_snap demoX demoSnap [demoHeader 7 70 0 [] [] 1, demoHeader 9 90 70 [] [] 1]
       = Inl errInvalidVotingChain"
  using apply_error_iff_numbers_break
          [of "[demoHeader 7 70 0 [] [] 1, demoHeader 8 80 70 [] [] 1]" demoX demoSnap]
        apply_error_iff_numbers_break
          [of "[demoHeader 7 70 0 [] [] 1, demoHeader 9 90 70 [] [] 1]" demoX demoSnap]
  by (simp add: demoSnap_def demoHeader_def less_Suc_eq)

text \<open>C3, against the claim as stated: a header numbered 7 whose parent hash is 99 is applied
  to a snapshot at number 6 with hash 0.\<close>

theorem apply_accepts_unlinked_parent:
  "\<not> isl (apply_snap demoX demoSnap [demoHeader 7 70 99 [] [] 1])
   \<and> ParentHash (demoHeader 7 70 99 [] [] 1) \<noteq> snapHash demoSnap"
  by (simp add: apply_snap_def demoSnap_def demoHeader_def applyHeader_def Let_def
        updateCandidates_def updateRpts_def updateView_def checkpointInterval_def)
















section \<open>Checkpoints and the leader of a height\<close>

lemma sint_small: 
  fixes w :: uint64
  assumes "uint w < 2 ^ 63"
  shows "sint w = uint w"
proof -
  have "(0::int) \<le> 2 ^ 63" by simp
  then have "- (2 ^ 63) \<le> uint w"
    using uint_ge_0 [of w] by linarith
  then have "signed_take_bit 63 (uint w) = uint w"
    using assms by (intro signed_take_bit_int_eq_self)
  then show ?thesis by (simp add: sint_uint)
qed


lemma uint_unat_small:
  fixes w :: uint64
  assumes "unat w < 2 ^ 63"
  shows "uint w < 2 ^ 63"
proof -
  have "int (unat w) < int (2 ^ 63)"
    using assms by (simp only: of_nat_less_iff)
  then show ?thesis by simp
qed

lemma sint_unat_small:
  fixes w :: uint64
  assumes "unat w < 2 ^ 63"
  shows "sint w = int (unat w)"
  using sint_small [OF uint_unat_small [OF assms]] by simp


text \<open>
  C7.  \<open>applyHeader\<close> on a header whose number is a multiple of the checkpoint interval
  sets the proposer sequence to the election's result for the seed made of the low 64 bits
  of the header's hash and for the view length \<open>Epoch\<close>; on any other header the proposer
  sequence stays as it was.  (The epoch length is below \<open>2^63\<close>, so that Go's \<open>int\<close> holds it.)
\<close>

theorem applyHeader_checkpoint_election:
  assumes "unat (Epoch (config s)) < 2 ^ 63"
  shows "fst (applyHeader X s h) = None \<and>
         Signers (snd (applyHeader X s h)) =
           (if Number h mod checkpointInterval = 0
            then Elect X (fst (updateRpts s h)) (sint (ucast (hashOf X h) :: uint64))
                         (int (unat (Epoch (config s))))
            else Signers s)"
proof -
  have "sint (Epoch (config s)) = int (unat (Epoch (config s)))"
    by (rule sint_unat_small [OF assms])
  then show ?thesis
    by (simp add: applyHeader_def Let_def updateRpts_def updateCandidates_def updateView_def)
qed

text \<open>C7, an instance: header 8 is a checkpoint and elects, header 7 is not.\<close>

theorem applyHeader_checkpoint_election_witness:
  "unat (Epoch (config demoSnap)) < 2 ^ 63
   \<and> Signers (snd (applyHeader demoX demoSnap (demoHeader 8 80 70 [] [] 1)))
       = demoElect (fst (updateRpts demoSnap (demoHeader 8 80 70 [] [] 1))) 80 4
   \<and> Signers (snd (applyHeader demoX demoSnap (demoHeader 7 70 0 [] [] 1))) = [1, 2, 3, 4]"
proof -
  have h: "unat (Epoch (config demoSnap)) < 2 ^ 63" by (simp add: demoSnap_def)
  from applyHeader_checkpoint_election [OF h, of demoX "demoHeader 8 80 70 [] [] 1"]
       applyHeader_checkpoint_election [OF h, of demoX "demoHeader 7 70 0 [] [] 1"] h
  show ?thesis
    by (simp add: demoX_def demoHash_def demoHeader_def demoSnap_def checkpointInterval_def)
qed






section \<open>The digest, signature recovery and the seal\<close>

text \<open>
  C4.  For headers whose \<open>Extra\<close> has at least 65 bytes, the digest \<open>sigHash\<close> does not
  depend on the last 65 bytes of \<open>Extra\<close> nor on \<open>Extra2\<close>: two such headers that agree on
  every other field and on \<open>Extra\<close> without its last 65 bytes have the same digest (and
  \<open>sigHash\<close> returns one).
\<close>

theorem sigHash_ignores_seal_and_signatures:
  assumes "65 \<le> length (Extra h1)" and "65 \<le> length (Extra h2)"
      and "take (length (Extra h1) - 65) (Extra h1) = take (length (Extra h2) - 65) (Extra h2)"
      and "h1\<lparr>Extra := [], Extra2 := []\<rparr> = h2\<lparr>Extra := [], Extra2 := []\<rparr>"
  shows "sigHash X h1 = sigHash X h2 \<and> sigHash X h1 \<noteq> Panic"
proof -
  have "ParentHash h1 = ParentHash h2" "Coinbase h1 = Coinbase h2" "StateRoot h1 = StateRoot h2"
       "TxsRoot h1 = TxsRoot h2" "ReceiptsRoot h1 = ReceiptsRoot h2" "LogsBloom h1 = LogsBloom h2"
       "Difficulty h1 = Difficulty h2" "Number h1 = Number h2" "GasLimit h1 = GasLimit h2"
       "GasUsed h1 = GasUsed h2" "Time h1 = Time h2" "MixHash h1 = MixHash h2" "Nonce h1 = Nonce h2"
    using assms(4) by (cases h1; cases h2; simp)+
  with assms(1-3) show ?thesis by (simp add: sigHash_def)
qed

text \<open>C4, an instance: the same header with two different seals and signature vectors.\<close>

theorem sigHash_ignores_seal_and_signatures_witness:
  "sigHash demoX (demoHeader 7 70 0 (replicate 32 0 @ replicate 65 1) [9, 9] 2)
     = sigHash demoX (demoHeader 7 70 0 (replicate 32 0 @ replicate 65 5) [] 2)
   \<and> sigHash demoX (demoHeader 7 70 0 (replicate 32 0 @ replicate 65 1) [9, 9] 2) = Return 1"
proof -
  let ?h1 = "demoHeader 7 70 0 (replicate 32 0 @ replicate 65 1) [9, 9] 2"
  let ?h2 = "demoHeader 7 70 0 (replicate 32 0 @ replicate 65 5) [] 2"
  have a: "65 \<le> length (Extra ?h1)" "65 \<le> length (Extra ?h2)"
    by (simp_all add: demoHeader_def)
  have b: "take (length (Extra ?h1) - 65) (Extra ?h1) = take (length (Extra ?h2) - 65) (Extra ?h2)"
    by (simp add: demoHeader_def)
  have c: "?h1\<lparr>Extra := [], Extra2 := []\<rparr> = ?h2\<lparr>Extra := [], Extra2 := []\<rparr>"
    by (simp add: demoHeader_def)
  have d: "sigHash demoX ?h1 = Return 1"
    by (simp add: sigHash_def demoHeader_def demoX_def demoRlpHash_def)
  from sigHash_ignores_seal_and_signatures [OF a b c, of demoX] d show ?thesis by simp
qed

lemma recoverLoop_total:
  assumes "\<forall>d sg pk. Ecrecover X d sg = Inr pk \<longrightarrow> pk \<noteq> []"
      and "65 \<le> length (Extra hdr)"
      and "cache h \<noteq> None"
  shows "recoverLoop X hdr h leader slots recovered cache \<noteq> Panic"
  using assms(3)
proof (induction slots arbitrary: recovered cache)
  case Nil
  show ?case by simp
next
  case (Cons slot slots)
  from Cons.prems obtain sigs where sigs: "cache h = Some sigs" by auto
  from assms(2) obtain d where d: "sigHash X hdr = Return d"
    by (simp add: sigHash_def)
  show ?case
  proof (cases "slot = replicate extraSeal 0")
    case True
    have "recoverLoop X hdr h leader slots recovered cache \<noteq> Panic"
      by (rule Cons.IH) (rule Cons.prems)
    with True show ?thesis by simp
  next
    case False
    show ?thesis
    proof (cases "Ecrecover X d slot")
      case (Inl err)
      with False d show ?thesis by simp
    next
      case (Inr pk)
      with assms(1) have "pk \<noteq> []" by blast
      then have pk: "pubkeyToAddress X pk = Return (ucast (Keccak256 X (drop 1 pk)))"
        by (cases pk) (simp_all add: pubkeyToAddress_def)
      let ?cache' = "cache(h \<mapsto> sigs(ucast (Keccak256 X (drop 1 pk)) \<mapsto> slot))"
      have "?cache' h \<noteq> None" by simp
      then have "recoverLoop X hdr h leader slots
                   (recovered @ [ucast (Keccak256 X (drop 1 pk))]) ?cache' \<noteq> Panic"
        by (rule Cons.IH)
      with False d Inr pk sigs show ?thesis by simp
    qed
  qed
qed

text \<open>
  C9.  On a header whose \<open>Extra\<close> is shorter than 65 bytes \<open>ecrecover\<close> returns the
  missing-signature error, the cache untouched, before \<open>sigHash\<close> could panic; and on no
  header at all does \<open>ecrecover\<close> panic (a recovered public key being non-empty, as the
  crypto library returns it).
\<close>

theorem ecrecover_short_extra_total:
  "(length (Extra hdr) < 65 \<longrightarrow>
      ecrecover X hdr cache = Return ((0, [], Some errMissingSignature), cache))
   \<and> ((\<forall>d sg pk. Ecrecover X d sg = Inr pk \<longrightarrow> pk \<noteq> []) \<longrightarrow> ecrecover X hdr cache \<noteq> Panic)"
proof (intro conjI impI)
  assume "length (Extra hdr) < 65"
  then show "ecrecover X hdr cache = Return ((0, [], Some errMissingSignature), cache)"
    by (simp add: ecrecover_def extraSeal_def)
next
  assume pk: "\<forall>d sg pk. Ecrecover X d sg = Inr pk \<longrightarrow> pk \<noteq> []"
  show "ecrecover X hdr cache \<noteq> Panic"
  proof (cases "length (Extra hdr) < 65")
    case True
    then show ?thesis by (simp add: ecrecover_def extraSeal_def)
  next
    case False
    then have len: "65 \<le> length (Extra hdr)" by simp
    then obtain d where d: "sigHash X hdr = Return d"
      by (simp add: sigHash_def)
    let ?leaderSig = "drop (length (Extra hdr) - extraSeal) (Extra hdr)"
    show ?thesis
    proof (cases "DecodedExtra2 X (Extra2 hdr)")
      case (Inl err)
      with False show ?thesis by (simp add: ecrecover_def extraSeal_def)
    next
      case dec: (Inr signersSig)
      show ?thesis
      proof (cases "Ecrecover X d ?leaderSig")
        case (Inl err)
        with False dec d show ?thesis by (simp add: ecrecover_def Let_def extraSeal_def)
      next
        case (Inr lpk)
        with pk have "lpk \<noteq> []" by blast
        then have lp: "pubkeyToAddress X lpk = Return (ucast (Keccak256 X (drop 1 lpk)))"
          by (cases lpk) (simp_all add: pubkeyToAddress_def)
        let ?leader = "ucast (Keccak256 X (drop 1 lpk)) :: address"
        let ?h = "hashOf X hdr"
        have ns: "\<not> length (Extra hdr) < extraSeal"
          using False by (simp add: extraSeal_def)
        show ?thesis
        proof (cases "cache ?h")
          case None
          let ?cache1 = "cache(?h \<mapsto> [?leader \<mapsto> ?leaderSig])"
          have c1: "?cache1 ?h \<noteq> None" by simp
          have "recoverLoop X hdr ?h ?leader (sigSlots signersSig) [] ?cache1 \<noteq> Panic"
            by (rule recoverLoop_total [OF pk len]) (rule c1)
          with ns dec d Inr lp None show ?thesis by (simp add: ecrecover_def Let_def)
        next
          case (Some sigs)
          let ?cache1 = "cache(?h \<mapsto> sigs(?leader \<mapsto> ?leaderSig))"
          have c1: "?cache1 ?h \<noteq> None" by simp
          have "recoverLoop X hdr ?h ?leader (sigSlots signersSig) [] ?cache1 \<noteq> Panic"
            by (rule recoverLoop_total [OF pk len]) (rule c1)
          with ns dec d Inr lp Some show ?thesis by (simp add: ecrecover_def Let_def)
        qed
      qed
    qed
  qed
qed

text \<open>C9, an instance: a header with 64 bytes of \<open>Extra\<close>.\<close>

theorem ecrecover_short_extra_total_witness:
  "length (Extra (demoHeader 7 70 0 (replicate 64 1) [] 2)) < 65
   \<and> ecrecover demoX (demoHeader 7 70 0 (replicate 64 1) [] 2) Map.empty
       = Return ((0, [], Some errMissingSignature), Map.empty)
   \<and> ecrecover demoX (demoHeader 7 70 0 (replicate 64 1) [] 2) Map.empty \<noteq> Panic"
proof -
  have a: "length (Extra (demoHeader 7 70 0 (replicate 64 1) [] 2)) < 65"
    by (simp add: demoHeader_def)
  have b: "\<forall>d sg pk. Ecrecover demoX d sg = Inr pk \<longrightarrow> pk \<noteq> []"
    by (auto simp add: demoX_def demoEcrecover_def split: if_splits)
  from ecrecover_short_extra_total [of "demoHeader 7 70 0 (replicate 64 1) [] 2" demoX Map.empty] a b
  show ?thesis by simp
qed










section \<open>Signing one block per height\<close>

lemma signAndStore_engine:
  "signAndStore X dpor snap h allSigs = Return (e, h', d) \<Longrightarrow> d = dpor"
  by (auto simp add: signAndStore_def Let_def split: go.splits sum.splits)

lemma signHeader_engine:
  "signHeader X dpor h = Return (e, h', d) \<Longrightarrow> d = dpor"
  by (auto simp add: signHeader_def Let_def split: go.splits sum.splits option.splits if_splits
        dest: signAndStore_engine)

text \<open>
  C2.  The signer is to refuse a second header at a height it has signed, when the hash
  differs.  Run on the code: member 2 of the committee signs a header at height 7 and then
  another header at height 7 with a different hash, on the engine the first call leaves.
  Both calls return no error, and the map of signed blocks holds nothing for height 7
  afterwards: \<open>signHeader\<close> reads the map and never writes it.
\<close>

theorem signHeader_signs_second_hash:
  "Number demoBlockA = 7 \<and> Number demoBlockB = 7
   \<and> hashOf demoX demoBlockA \<noteq> hashOf demoX demoBlockB
   \<and> IsSignerOf demoX demoSnap (signer demoSigner) 7
   \<and> signTwice demoX demoSigner demoBlockA demoBlockB = Return (None, None, None)"
proof -
  have a: "Number demoBlockA = 7" "Number demoBlockB = 7"
    by (simp_all add: demoBlockA_def demoBlockB_def demoHeader_def)
  have b: "hashOf demoX demoBlockA \<noteq> hashOf demoX demoBlockB"
    by (simp add: demoBlockA_def demoBlockB_def demoHeader_def demoX_def demoHash_def)
  have c: "IsSignerOf demoX demoSnap (signer demoSigner) 7"
    by code_simp
  have d: "signTwice demoX demoSigner demoBlockA demoBlockB = Return (None, None, None)"
    by code_simp
  from a b c d show ?thesis by simp
qed

section \<open>Routing of consensus messages by height\<close>






end
